theory Spec2Isabelle
  imports Main
begin

section \<open>Configuration of the MCP client (src/src/client.ts)\<close>

text \<open>
  Modelled from the spec: the type \<^verbatim>\<open>MCPClientConfig\<close>, declared in \<^verbatim>\<open>./types.js\<close>, which
  is not among the sources. Its fields are the ones that client.ts reads, which are also
  the ones the spec lists for the configuration input.

  The server configuration is a JavaScript object all of whose fields are optional; an
  absent field (\<^verbatim>\<open>undefined\<close>) is \<open>None\<close>. The environment is an object used as a
  dictionary from variable names to values. The transport type is kept as a string, since
  createTransport has a branch for values other than stdio and sse.
\<close>

type_synonym env = "string \<rightharpoonup> string"

record ServerConfig =
  command :: "string option"
  args :: "string list option"
  env :: "env option"
  cwd :: "string option"
  sseUrl :: "string option"

record MCPClientConfig =
  transportType :: string
  serverConfig :: ServerConfig

subsection \<open>JavaScript idioms used by the source\<close>

text \<open>\<^verbatim>\<open>s || ''\<close>: an absent string and the empty string both give the empty string.\<close>

definition orEmptyString :: "string option \<Rightarrow> string" where
  "orEmptyString s = (case s of None \<Rightarrow> [] | Some v \<Rightarrow> v)"

text \<open>\<^verbatim>\<open>a || []\<close>: an array is always truthy, so only an absent one is replaced.\<close>

definition orEmptyList :: "string list option \<Rightarrow> string list" where
  "orEmptyList a = (case a of None \<Rightarrow> [] | Some v \<Rightarrow> v)"

text \<open>\<^verbatim>\<open>e || {}\<close>: an object is always truthy.\<close>

definition orEmptyObject :: "env option \<Rightarrow> env" where
  "orEmptyObject e = (case e of None \<Rightarrow> Map.empty | Some m \<Rightarrow> m)"

text \<open>\<^verbatim>\<open>s || undefined\<close>: the empty string is falsy, so it becomes \<^verbatim>\<open>undefined\<close>.\<close>

definition orUndefined :: "string option \<Rightarrow> string option" where
  "orUndefined s = (case s of None \<Rightarrow> None | Some v \<Rightarrow> (if v = [] then None else Some v))"

text \<open>\<^verbatim>\<open>Array.prototype.join\<close> on an array of strings.\<close>

fun join :: "string \<Rightarrow> string list \<Rightarrow> string" where
  "join sep [] = []"
| "join sep [x] = x"
| "join sep (x # y # ys) = x @ sep @ join sep (y # ys)"

text \<open>\<^verbatim>\<open>String.prototype.startsWith\<close>.\<close>

definition startsWith :: "string \<Rightarrow> string \<Rightarrow> bool" where
  "startsWith s p = (take (length p) s = p)"

section \<open>The command rewriter\<close>

text \<open>
  \<^verbatim>\<open>process.platform\<close> is read at each call; it is a parameter \<open>platform\<close> here.
  The object literal that the two generators return has exactly the keys command, args,
  env and cwd, so the result has no sseUrl.
\<close>

definition generateNpxCommand :: "string \<Rightarrow> ServerConfig \<Rightarrow> ServerConfig" where
  "generateNpxCommand platform sc =
    (let currentNpxPath = ''npx'';
         npmMirrorRegistry = ''https://registry.npmmirror.com'';
         args' = orEmptyList (args sc);
         env' = orEmptyObject (env sc);
         cwd' = orUndefined (cwd sc)
     in if platform = ''win32'' then
          \<lparr> command = Some ''cmd'',
            args = Some ([''/c'', currentNpxPath, ''--registry='' @ npmMirrorRegistry] @ args'),
            env = Some (env'(''NPM_CONFIG_REGISTRY'' \<mapsto> npmMirrorRegistry)),
            cwd = cwd',
            sseUrl = None \<rparr>
        else
          \<lparr> command = Some ''bash'',
            args = Some [''-c'',
              currentNpxPath @ '' --registry='' @ npmMirrorRegistry @ '' '' @ join '' '' args'],
            env = Some (env'(''NPM_CONFIG_REGISTRY'' \<mapsto> npmMirrorRegistry)),
            cwd = cwd',
            sseUrl = None \<rparr>)"

definition generateUvxCommand :: "string \<Rightarrow> ServerConfig \<Rightarrow> ServerConfig" where
  "generateUvxCommand platform sc =
    (let currentUvxPath = ''uvx'';
         args' = orEmptyList (args sc);
         env' = orEmptyObject (env sc);
         cwd' = orUndefined (cwd sc);
         uvDefaultIndex = ''https://pypi.tuna.tsinghua.edu.cn/simple''
     in if platform = ''win32'' then
          \<lparr> command = Some ''cmd'',
            args = Some ([''/c'', currentUvxPath] @ args'),
            env = Some (env'(''UV_DEFAULT_INDEX'' \<mapsto> uvDefaultIndex)),
            cwd = cwd',
            sseUrl = None \<rparr>
        else
          \<lparr> command = Some ''bash'',
            args = Some [''-c'', currentUvxPath @ '' '' @ join '' '' args'],
            env = Some (env'(''UV_DEFAULT_INDEX'' \<mapsto> uvDefaultIndex)),
            cwd = cwd',
            sseUrl = None \<rparr>)"

definition generateCallStdioServerCommand :: "string \<Rightarrow> ServerConfig \<Rightarrow> ServerConfig" where
  "generateCallStdioServerCommand platform sourceServerConfig =
    (let command' = orEmptyString (command sourceServerConfig)
     in if command' = ''npx'' then generateNpxCommand platform sourceServerConfig
        else if command' = ''uvx'' then generateUvxCommand platform sourceServerConfig
        else sourceServerConfig)"

section \<open>Transport selection\<close>

text \<open>
  The platform's \<^verbatim>\<open>URL\<close> constructor is not code of this repository: it is the parameter
  \<open>parseURL\<close>, which gives \<open>None\<close> where \<^verbatim>\<open>new URL(s)\<close> throws. Of the parsed object
  only the properties \<^verbatim>\<open>protocol\<close> (the scheme followed by a colon) and \<^verbatim>\<open>href\<close> are
  kept.
\<close>

record URL =
  protocol :: string
  href :: string

type_synonym urlParser = "string \<Rightarrow> URL option"

text \<open>A transport handle of the SDK, with the arguments its constructor was given.\<close>

datatype Transport =
    StdioClientTransport string "string list" "env option" "string option"
  | SSEClientTransport URL

text \<open>
  What a \<^verbatim>\<open>throw\<close> carries: an \<^verbatim>\<open>Error\<close> built in this file with its message, the
  \<^verbatim>\<open>TypeError\<close> of the \<^verbatim>\<open>URL\<close> constructor, or whatever the SDK client rejected with.
\<close>

datatype 'e thrown = Error string | TypeError | Rejected 'e

definition isSSEUrl :: "urlParser \<Rightarrow> string \<Rightarrow> bool" where
  "isSSEUrl parseURL url =
    (case parseURL url of
       None \<Rightarrow> False
     | Some _ \<Rightarrow> startsWith url ''http://'' \<or> startsWith url ''https://'')"

definition createTransport :: "urlParser \<Rightarrow> MCPClientConfig \<Rightarrow> 'e thrown + Transport" where
  "createTransport parseURL clientConfig =
    (let sc = serverConfig clientConfig
     in if transportType clientConfig = ''stdio'' then
          (case command sc of
             None \<Rightarrow> Inl (Error ''[MCP Client] Missing command for STDIO transport'')
           | Some c \<Rightarrow>
               if c = [] then Inl (Error ''[MCP Client] Missing command for STDIO transport'')
               else Inr (StdioClientTransport c (orEmptyList (args sc)) (env sc)
                          (orUndefined (cwd sc))))
        else if transportType clientConfig = ''sse'' then
          (case sseUrl sc of
             None \<Rightarrow> Inl (Error ''[MCP Client] invalid SSE URL'')
           | Some u \<Rightarrow>
               if u = [] \<or> \<not> isSSEUrl parseURL u then Inl (Error ''[MCP Client] invalid SSE URL'')
               else (case parseURL u of
                       None \<Rightarrow> Inl TypeError
                     | Some parsed \<Rightarrow> Inr (SSEClientTransport parsed)))
        else Inl (Error (''[MCP Client] Unsupported transport type: ''
                          @ transportType clientConfig)))"

section \<open>The client object and its effects\<close>

text \<open>
  Everything the methods do to the outside world, and each call of the two private
  methods that the connection loop makes, is appended to a trace in the order of
  execution. \<open>'a\<close> is the type of tool arguments.
\<close>

datatype 'a event =
    CallRewriter ServerConfig
  | LogStdioConfig ServerConfig
  | CallCreateTransport
  | Connect Transport
  | LogRemaining nat
  | Sleep nat
  | ListTools
  | CallTool string 'a nat

record 'a MCPClient =
  clientConfig :: MCPClientConfig
  transport :: "Transport option"
  trace :: "'a event list"

definition newMCPClient :: "MCPClientConfig \<Rightarrow> 'a MCPClient" where
  "newMCPClient config = \<lparr> clientConfig = config, transport = None, trace = [] \<rparr>"

definition emit :: "'a event list \<Rightarrow> 'a MCPClient \<Rightarrow> 'a MCPClient" where
  "emit es c = c\<lparr> trace := trace c @ es \<rparr>"

definition rewriterCalls :: "'a event list \<Rightarrow> ServerConfig list" where
  "rewriterCalls es = [sc. CallRewriter sc \<leftarrow> es]"

definition builds :: "'a event list \<Rightarrow> nat" where
  "builds es = length [e \<leftarrow> es. e = CallCreateTransport]"

definition connects :: "'a event list \<Rightarrow> Transport list" where
  "connects es = [t. Connect t \<leftarrow> es]"

definition sleeps :: "'a event list \<Rightarrow> nat list" where
  "sleeps es = [ms. Sleep ms \<leftarrow> es]"

definition listToolsCalls :: "'a event list \<Rightarrow> nat" where
  "listToolsCalls es = length [e \<leftarrow> es. e = ListTools]"

definition callToolCalls :: "'a event list \<Rightarrow> (string \<times> 'a \<times> nat) list" where
  "callToolCalls es = [(n, a, t). CallTool n a t \<leftarrow> es]"

section \<open>Establishing the connection\<close>

definition maxRetries :: nat where
  "maxRetries = 3"

definition retryDelay :: nat where
  "retryDelay = 1000"

text \<open>
  The SDK's \<^verbatim>\<open>connect\<close> is the parameter \<open>connect\<close>: given how many times it has been
  called before and the handle, it says whether this call rejects (\<open>Some e\<close>) or resolves.
  \<open>attempt\<close> is the body of the \<^verbatim>\<open>try\<close> block of connectToServer.
\<close>

definition attempt ::
  "string \<Rightarrow> urlParser \<Rightarrow> (nat \<Rightarrow> Transport \<Rightarrow> 'e option) \<Rightarrow> 'a MCPClient
     \<Rightarrow> ('e thrown + unit) \<times> 'a MCPClient" where
  "attempt platform parseURL connect c =
    (let c1 =
       (if transportType (clientConfig c) = ''stdio'' then
          (let source = serverConfig (clientConfig c);
               stdioServerConfig = generateCallStdioServerCommand platform source
           in emit [CallRewriter source, LogStdioConfig stdioServerConfig]
                (c\<lparr> clientConfig :=
                     \<lparr> transportType = ''stdio'', serverConfig = stdioServerConfig \<rparr> \<rparr>))
        else c);
         c2 = emit [CallCreateTransport] c1
     in case createTransport parseURL (clientConfig c2) of
          Inl err \<Rightarrow> (Inl err, c2)
        | Inr t \<Rightarrow>
            (let c3 = c2\<lparr> transport := Some t \<rparr>;
                 c4 = emit [Connect t] c3
             in case connect (length (connects (trace c3))) t of
                  Some e \<Rightarrow> (Inl (Rejected e), c4)
                | None \<Rightarrow> (Inr (), c4)))"

function connectLoop ::
  "string \<Rightarrow> urlParser \<Rightarrow> (nat \<Rightarrow> Transport \<Rightarrow> 'e option) \<Rightarrow> nat \<Rightarrow> 'a MCPClient
     \<Rightarrow> ('e thrown + unit) \<times> 'a MCPClient" where
  "connectLoop platform parseURL connect retries c =
    (if retries < maxRetries then
       (case attempt platform parseURL connect c of
          (Inr _, c') \<Rightarrow> (Inr (), c')
        | (Inl error, c') \<Rightarrow>
            (let retries' = retries + 1;
                 c'' = emit [LogRemaining (maxRetries - retries')] c'
             in if retries' \<ge> maxRetries then (Inl error, c'')
                else connectLoop platform parseURL connect retries' (emit [Sleep retryDelay] c'')))
     else (Inr (), c))"
  by pat_completeness auto
termination
  by (relation "measure (\<lambda>(platform, parseURL, connect, retries, c). maxRetries - retries)") auto

definition connectToServer ::
  "string \<Rightarrow> urlParser \<Rightarrow> (nat \<Rightarrow> Transport \<Rightarrow> 'e option) \<Rightarrow> 'a MCPClient
     \<Rightarrow> ('e thrown + unit) \<times> 'a MCPClient" where
  "connectToServer platform parseURL connect c = connectLoop platform parseURL connect 0 c"

section \<open>The operations on an open session\<close>

text \<open>The result object of the SDK's \<^verbatim>\<open>listTools\<close>; its \<^verbatim>\<open>tools\<close> may be absent.\<close>

record 't ListToolsResult =
  tools :: "'t list option"

text \<open>
  The loop of listTools with its counter. \<open>sdkListTools n\<close> is the outcome of the SDK call
  when \<open>n\<close> calls were made before. \<open>toolsResult\<close> is the variable of that name.
\<close>

fun listToolsLoop ::
  "(nat \<Rightarrow> 'e + 't ListToolsResult) \<Rightarrow> nat \<Rightarrow> 't ListToolsResult option \<Rightarrow> 'a MCPClient
     \<Rightarrow> ('e + 't ListToolsResult option) \<times> 'a MCPClient" where
  "listToolsLoop sdkListTools retries toolsResult c =
    (if retries > 0 then
       (let c1 = emit [ListTools] c
        in case sdkListTools (listToolsCalls (trace c)) of
             Inr r \<Rightarrow> (Inr (Some r), c1)
           | Inl error \<Rightarrow>
               (let retries' = retries - 1
                in if retries' = 0 then (Inl error, c1)
                   else listToolsLoop sdkListTools retries' toolsResult (emit [Sleep 1000] c1)))
     else (Inr toolsResult, c))"

definition listTools ::
  "(nat \<Rightarrow> 'e + 't ListToolsResult) \<Rightarrow> 'a MCPClient \<Rightarrow> ('e + 't list) \<times> 'a MCPClient" where
  "listTools sdkListTools c =
    (case listToolsLoop sdkListTools 3 None c of
       (Inl error, c') \<Rightarrow> (Inl error, c')
     | (Inr toolsResult, c') \<Rightarrow>
         (Inr (case toolsResult of
                 None \<Rightarrow> []
               | Some r \<Rightarrow> (case tools r of None \<Rightarrow> [] | Some ts \<Rightarrow> ts)), c'))"

text \<open>
  \<open>sdkCallTool n name arguments timeout\<close> is the outcome of the SDK's \<^verbatim>\<open>callTool\<close> when
  \<open>n\<close> calls were made before; the timeout is in milliseconds.
\<close>

definition callTool ::
  "(nat \<Rightarrow> string \<Rightarrow> 'a \<Rightarrow> nat \<Rightarrow> 'e + 'r) \<Rightarrow> string \<Rightarrow> 'a \<Rightarrow> 'a MCPClient
     \<Rightarrow> ('e + 'r) \<times> 'a MCPClient" where
  "callTool sdkCallTool toolName toolArgs c =
    (let timeout = 5 * 60 * 1000;
         c1 = emit [CallTool toolName toolArgs timeout] c
     in case sdkCallTool (length (callToolCalls (trace c))) toolName toolArgs timeout of
          Inl error \<Rightarrow> (Inl error, c1)
        | Inr result \<Rightarrow> (Inr result, c1))"

section \<open>Auxiliary definitions for the statements\<close>

text \<open>
  The configuration that the \<^verbatim>\<open>try\<close> block stores before it builds the transport: for
  stdio the rewritten server configuration, otherwise the configuration as it was.
\<close>

definition storedConfig :: "string \<Rightarrow> MCPClientConfig \<Rightarrow> MCPClientConfig" where
  "storedConfig platform cfg =
    (if transportType cfg = ''stdio'' then
       \<lparr> transportType = ''stdio'',
         serverConfig = generateCallStdioServerCommand platform (serverConfig cfg) \<rparr>
     else cfg)"

text \<open>The events of one attempt up to and including the call of createTransport.\<close>

definition attemptPrelude :: "string \<Rightarrow> MCPClientConfig \<Rightarrow> 'a event list" where
  "attemptPrelude platform cfg =
    (if transportType cfg = ''stdio'' then
       [CallRewriter (serverConfig cfg),
        LogStdioConfig (generateCallStdioServerCommand platform (serverConfig cfg))]
     else []) @ [CallCreateTransport]"

text \<open>\<^verbatim>\<open>result.tools ?? []\<close>.\<close>

definition toolsOf :: "'t ListToolsResult \<Rightarrow> 't list" where
  "toolsOf r = (case tools r of None \<Rightarrow> [] | Some ts \<Rightarrow> ts)"

subsection \<open>Concrete inputs for the examples\<close>

text \<open>
  A finite excerpt of the platform's \<^verbatim>\<open>URL\<close> constructor (WHATWG URL Standard), used as
  the parser in the examples. The parser lower-cases the scheme, and after the scheme of
  http the two slashes are optional, so the third and fourth strings parse to the same
  URL as the first. The examples use no string outside this table other than
  strings that the constructor rejects.
\<close>

definition urlExcerpt :: urlParser where
  "urlExcerpt s =
    (if s = ''http://example.com/sse'' then
       Some \<lparr> protocol = ''http:'', href = ''http://example.com/sse'' \<rparr>
     else if s = ''https://example.com/sse'' then
       Some \<lparr> protocol = ''https:'', href = ''https://example.com/sse'' \<rparr>
     else if s = ''HTTP://example.com/sse'' then
       Some \<lparr> protocol = ''http:'', href = ''http://example.com/sse'' \<rparr>
     else if s = ''http:example.com/sse'' then
       Some \<lparr> protocol = ''http:'', href = ''http://example.com/sse'' \<rparr>
     else if s = ''ftp://example.com/sse'' then
       Some \<lparr> protocol = ''ftp:'', href = ''ftp://example.com/sse'' \<rparr>
     else None)"

text \<open>
  Scripted SDK sessions: the call number \<open>n\<close> gets the \<open>n\<close>-th outcome of the list, and
  the default \<open>d\<close> once the list is used up.
\<close>

definition replay :: "'x \<Rightarrow> 'x list \<Rightarrow> nat \<Rightarrow> 'x" where
  "replay d xs n = (if n < length xs then xs ! n else d)"

definition replayConnect :: "'e option list \<Rightarrow> nat \<Rightarrow> Transport \<Rightarrow> 'e option" where
  "replayConnect xs n t = replay None xs n"

definition replayCallTool ::
  "('e + 'r) \<Rightarrow> ('e + 'r) list \<Rightarrow> nat \<Rightarrow> string \<Rightarrow> 'a \<Rightarrow> nat \<Rightarrow> 'e + 'r" where
  "replayCallTool d xs n toolName toolArgs timeout = replay d xs n"

definition missingCommandConfig :: MCPClientConfig where
  "missingCommandConfig =
    \<lparr> transportType = ''stdio'',
      serverConfig = \<lparr> command = None, args = Some [''-y'', ''some-pkg''], env = None, cwd = None,
                       sseUrl = None \<rparr> \<rparr>"

definition npxConfig :: MCPClientConfig where
  "npxConfig =
    \<lparr> transportType = ''stdio'',
      serverConfig = \<lparr> command = Some ''npx'', args = Some [''-y'', ''some-pkg''], env = None,
                       cwd = None, sseUrl = None \<rparr> \<rparr>"

definition sseConfig :: MCPClientConfig where
  "sseConfig =
    \<lparr> transportType = ''sse'',
      serverConfig = \<lparr> command = None, args = None, env = None, cwd = None,
                       sseUrl = Some ''https://example.com/sse'' \<rparr> \<rparr>"

declare connectLoop.simps [simp del]

section \<open>Properties of the command rewriter\<close>

lemma join_concat: "xs \<noteq> [] \<Longrightarrow> sep @ join sep xs = concat (map ((@) sep) xs)"
  by (induction sep xs rule: join.induct) auto

lemma rewrite_idem:
  "generateCallStdioServerCommand p (generateCallStdioServerCommand p sc)
     = generateCallStdioServerCommand p sc"
  by (simp add: generateCallStdioServerCommand_def generateNpxCommand_def generateUvxCommand_def
      orEmptyString_def Let_def)

lemma rewrite_command_missing:
  "(command (generateCallStdioServerCommand p sc) = None
      \<or> command (generateCallStdioServerCommand p sc) = Some [])
    \<longleftrightarrow> (command sc = None \<or> command sc = Some [])"
  by (auto simp add: generateCallStdioServerCommand_def generateNpxCommand_def
      generateUvxCommand_def orEmptyString_def Let_def split: option.splits)

text \<open>
  C7. On a platform other than win32, the server configuration with command npx,
  arguments -y and some-pkg and an empty (or absent) environment is rewritten to bash -c
  with the single argument string
  \<^verbatim>\<open>npx --registry=https://registry.npmmirror.com -y some-pkg\<close> and the environment that
  binds only NPM_CONFIG_REGISTRY to the mirror. On every platform and for every
  caller environment, the environment of the npx rewrite binds NPM_CONFIG_REGISTRY to the
  mirror and agrees with the caller's environment on every other variable.
\<close>

theorem npx_unix_rewrite:
  "(platform \<noteq> ''win32'' \<and> (ev = None \<or> ev = Some Map.empty) \<longrightarrow>
      generateCallStdioServerCommand platform
        \<lparr> command = Some ''npx'', args = Some [''-y'', ''some-pkg''], env = ev, cwd = None,
          sseUrl = None \<rparr>
      = \<lparr> command = Some ''bash'',
          args = Some [''-c'', ''npx --registry=https://registry.npmmirror.com -y some-pkg''],
          env = Some [''NPM_CONFIG_REGISTRY'' \<mapsto> ''https://registry.npmmirror.com''],
          cwd = None, sseUrl = None \<rparr>)
   \<and> (command sc = Some ''npx'' \<longrightarrow>
        (\<exists>e. env (generateCallStdioServerCommand platform' sc) = Some e
           \<and> e ''NPM_CONFIG_REGISTRY'' = Some ''https://registry.npmmirror.com''
           \<and> (\<forall>k. k \<noteq> ''NPM_CONFIG_REGISTRY'' \<longrightarrow> e k = orEmptyObject (env sc) k)))"
  by (auto simp add: generateCallStdioServerCommand_def generateNpxCommand_def
      orEmptyString_def orEmptyList_def orEmptyObject_def orUndefined_def Let_def)

theorem npx_unix_rewrite_witness:
  "''linux'' \<noteq> ''win32''
   \<and> generateCallStdioServerCommand ''linux''
        \<lparr> command = Some ''npx'', args = Some [''-y'', ''some-pkg''], env = None, cwd = None,
          sseUrl = None \<rparr>
      = \<lparr> command = Some ''bash'',
          args = Some [''-c'', ''npx --registry=https://registry.npmmirror.com -y some-pkg''],
          env = Some [''NPM_CONFIG_REGISTRY'' \<mapsto> ''https://registry.npmmirror.com''],
          cwd = None, sseUrl = None \<rparr>
   \<and> (\<exists>e. env (generateCallStdioServerCommand ''win32''
               \<lparr> command = Some ''npx'', args = None,
                 env = Some [''HOME'' \<mapsto> ''/root'', ''NPM_CONFIG_REGISTRY'' \<mapsto> ''mine''],
                 cwd = None, sseUrl = None \<rparr>) = Some e
          \<and> e ''NPM_CONFIG_REGISTRY'' = Some ''https://registry.npmmirror.com''
          \<and> e ''HOME'' = Some ''/root'')"
  using npx_unix_rewrite [of "''linux''" None
      "\<lparr> command = Some ''npx'', args = None,
         env = Some [''HOME'' \<mapsto> ''/root'', ''NPM_CONFIG_REGISTRY'' \<mapsto> ''mine''],
         cwd = None, sseUrl = None \<rparr>" "''win32''"]
  by (auto simp add: orEmptyObject_def)

text \<open>
  C8. For every server configuration whose command is neither npx nor uvx, an absent
  command included, the rewriter returns its argument unchanged. The rewriter has no
  failing branch: the source throws nowhere, so the model is a total function into
  server configurations.
\<close>

theorem rewrite_identity_on_other_commands:
  "command sc \<noteq> Some ''npx'' \<Longrightarrow> command sc \<noteq> Some ''uvx'' \<Longrightarrow>
     generateCallStdioServerCommand platform sc = sc"
  by (auto simp add: generateCallStdioServerCommand_def orEmptyString_def Let_def
      split: option.splits)

theorem rewrite_identity_on_other_commands_witness:
  "generateCallStdioServerCommand ''linux''
     \<lparr> command = Some ''node'', args = Some [''server.js''], env = None, cwd = Some ''/srv'',
       sseUrl = None \<rparr>
   = \<lparr> command = Some ''node'', args = Some [''server.js''], env = None, cwd = Some ''/srv'',
       sseUrl = None \<rparr>
   \<and> generateCallStdioServerCommand ''win32''
     \<lparr> command = None, args = None, env = None, cwd = None, sseUrl = None \<rparr>
   = \<lparr> command = None, args = None, env = None, cwd = None, sseUrl = None \<rparr>"
  using rewrite_identity_on_other_commands
      [of "\<lparr> command = Some ''node'', args = Some [''server.js''], env = None,
             cwd = Some ''/srv'', sseUrl = None \<rparr>" "''linux''"]
    rewrite_identity_on_other_commands
      [of "\<lparr> command = None, args = None, env = None, cwd = None, sseUrl = None \<rparr>" "''win32''"]
  by simp

text \<open>
  C9. On a platform other than win32 the rewriter, for command npx and for command uvx,
  runs bash -c with one shell string: the runner (for npx followed by the registry flag),
  one space, and the caller's arguments joined by single spaces, each argument as it is,
  with nothing quoted or escaped. The two generators do so for every server configuration.
  So the rewriter is not injective: with command npx, and likewise with command uvx, the
  argument lists \<^verbatim>\<open>["a b"]\<close> and \<^verbatim>\<open>["a", "b"]\<close> differ and are rewritten to the same
  server configuration, whose shell string ends with \<^verbatim>\<open>a b\<close>.
\<close>

theorem unix_join_not_injective:
  "platform \<noteq> ''win32'' \<Longrightarrow>
     (command sc = Some ''npx'' \<longrightarrow>
        command (generateCallStdioServerCommand platform sc) = Some ''bash''
        \<and> args (generateCallStdioServerCommand platform sc)
            = Some [''-c'', ''npx --registry=https://registry.npmmirror.com ''
                             @ join '' '' (orEmptyList (args sc))])
   \<and> (command sc = Some ''uvx'' \<longrightarrow>
        command (generateCallStdioServerCommand platform sc) = Some ''bash''
        \<and> args (generateCallStdioServerCommand platform sc)
            = Some [''-c'', ''uvx '' @ join '' '' (orEmptyList (args sc))])
   \<and> args (generateNpxCommand platform sc)
       = Some [''-c'', ''npx --registry=https://registry.npmmirror.com ''
                        @ join '' '' (orEmptyList (args sc))]
   \<and> args (generateUvxCommand platform sc)
       = Some [''-c'', ''uvx '' @ join '' '' (orEmptyList (args sc))]
   \<and> (xs \<noteq> [] \<longrightarrow> '' '' @ join '' '' xs = concat (map ((@) '' '') xs))
   \<and> generateCallStdioServerCommand platform
         \<lparr> command = Some ''npx'', args = Some [''a b''], env = e, cwd = w, sseUrl = u \<rparr>
     = generateCallStdioServerCommand platform
         \<lparr> command = Some ''npx'', args = Some [''a'', ''b''], env = e, cwd = w, sseUrl = u \<rparr>
   \<and> generateCallStdioServerCommand platform
         \<lparr> command = Some ''npx'', args = Some [''a'', ''b''], env = e, cwd = w, sseUrl = u \<rparr>
     = \<lparr> command = Some ''bash'',
         args = Some [''-c'', ''npx --registry=https://registry.npmmirror.com a b''],
         env = Some ((orEmptyObject e)(''NPM_CONFIG_REGISTRY'' \<mapsto>
                 ''https://registry.npmmirror.com'')),
         cwd = orUndefined w, sseUrl = None \<rparr>
   \<and> generateCallStdioServerCommand platform
         \<lparr> command = Some ''uvx'', args = Some [''a b''], env = e, cwd = w, sseUrl = u \<rparr>
     = generateCallStdioServerCommand platform
         \<lparr> command = Some ''uvx'', args = Some [''a'', ''b''], env = e, cwd = w, sseUrl = u \<rparr>
   \<and> generateCallStdioServerCommand platform
         \<lparr> command = Some ''uvx'', args = Some [''a'', ''b''], env = e, cwd = w, sseUrl = u \<rparr>
     = \<lparr> command = Some ''bash'', args = Some [''-c'', ''uvx a b''],
         env = Some ((orEmptyObject e)(''UV_DEFAULT_INDEX'' \<mapsto>
                 ''https://pypi.tuna.tsinghua.edu.cn/simple'')),
         cwd = orUndefined w, sseUrl = None \<rparr>
   \<and> [''a b''] \<noteq> [''a'', ''b'']"
  using join_concat [of xs "'' ''"]
  by (simp add: generateCallStdioServerCommand_def generateNpxCommand_def generateUvxCommand_def
      orEmptyString_def orEmptyList_def Let_def)

theorem unix_join_not_injective_witness:
  "''linux'' \<noteq> ''win32''
   \<and> args (generateCallStdioServerCommand ''linux''
        \<lparr> command = Some ''npx'', args = Some [''-y'', ''a pkg'', ''x''], env = None, cwd = None,
          sseUrl = None \<rparr>)
       = Some [''-c'', ''npx --registry=https://registry.npmmirror.com -y a pkg x'']
   \<and> args (generateNpxCommand ''linux''
        \<lparr> command = Some ''npx'', args = Some [''-y'', ''a pkg'', ''x''], env = None, cwd = None,
          sseUrl = None \<rparr>)
       = Some [''-c'', ''npx --registry=https://registry.npmmirror.com -y a pkg x'']
   \<and> args (generateCallStdioServerCommand ''linux''
        \<lparr> command = Some ''uvx'', args = Some [''my tool'', ''--flag''], env = None, cwd = None,
          sseUrl = None \<rparr>)
       = Some [''-c'', ''uvx my tool --flag'']
   \<and> generateCallStdioServerCommand ''linux''
         \<lparr> command = Some ''npx'', args = Some [''a b''], env = None, cwd = None, sseUrl = None \<rparr>
     = generateCallStdioServerCommand ''linux''
         \<lparr> command = Some ''npx'', args = Some [''a'', ''b''], env = None, cwd = None,
           sseUrl = None \<rparr>
   \<and> args (generateCallStdioServerCommand ''linux''
         \<lparr> command = Some ''npx'', args = Some [''a'', ''b''], env = None, cwd = None,
           sseUrl = None \<rparr>)
     = Some [''-c'', ''npx --registry=https://registry.npmmirror.com a b'']"
  using unix_join_not_injective [of "''linux''"
      "\<lparr> command = Some ''npx'', args = Some [''-y'', ''a pkg'', ''x''], env = None, cwd = None,
         sseUrl = None \<rparr>"
      "[''x'']" None None None]
    unix_join_not_injective [of "''linux''"
      "\<lparr> command = Some ''uvx'', args = Some [''my tool'', ''--flag''], env = None, cwd = None,
         sseUrl = None \<rparr>"
      "[''x'']" None None None]
  by (simp add: orEmptyList_def)

text \<open>
  The working directory is not always kept: the generators compute
  \<^verbatim>\<open>serverConfig.cwd || undefined\<close>, so an empty working directory comes back absent. Here
  the caller's environment binds NPM_CONFIG_REGISTRY and the working directory is the
  empty string.
\<close>

theorem empty_cwd_not_preserved_counterexample:
  "env \<lparr> command = Some ''npx'', args = None,
         env = Some [''NPM_CONFIG_REGISTRY'' \<mapsto> ''https://registry.npmjs.org''],
         cwd = Some [], sseUrl = None \<rparr>
     = Some [''NPM_CONFIG_REGISTRY'' \<mapsto> ''https://registry.npmjs.org'']
   \<and> cwd (generateCallStdioServerCommand ''linux''
        \<lparr> command = Some ''npx'', args = None,
          env = Some [''NPM_CONFIG_REGISTRY'' \<mapsto> ''https://registry.npmjs.org''],
          cwd = Some [], sseUrl = None \<rparr>) = None
   \<and> cwd \<lparr> command = Some ''npx'', args = None,
          env = Some [''NPM_CONFIG_REGISTRY'' \<mapsto> ''https://registry.npmjs.org''],
          cwd = Some [], sseUrl = None \<rparr> = Some []"
  by (simp add: generateCallStdioServerCommand_def generateNpxCommand_def
      orEmptyString_def orUndefined_def Let_def)

text \<open>
  C10, amended. When the caller supplies an environment, the environment of the npx
  rewrite is the caller's with NPM_CONFIG_REGISTRY set to the mirror, and that of the uvx
  rewrite is the caller's with UV_DEFAULT_INDEX set to the index mirror: a value the caller
  bound to that key is discarded and every other entry is kept. The working directory is
  kept when it is absent or non-empty; an empty working directory becomes absent.
\<close>

theorem injected_key_overrides_caller:
  "env sc = Some e \<Longrightarrow>
   (command sc = Some ''npx'' \<longrightarrow>
      env (generateCallStdioServerCommand platform sc)
        = Some (e(''NPM_CONFIG_REGISTRY'' \<mapsto> ''https://registry.npmmirror.com'')))
   \<and> (command sc = Some ''uvx'' \<longrightarrow>
      env (generateCallStdioServerCommand platform sc)
        = Some (e(''UV_DEFAULT_INDEX'' \<mapsto> ''https://pypi.tuna.tsinghua.edu.cn/simple'')))
   \<and> (command sc = Some ''npx'' \<or> command sc = Some ''uvx'' \<longrightarrow>
      cwd (generateCallStdioServerCommand platform sc)
        = (if cwd sc = Some [] then None else cwd sc))"
  by (auto simp add: generateCallStdioServerCommand_def generateNpxCommand_def
      generateUvxCommand_def orEmptyString_def orEmptyObject_def orUndefined_def Let_def
      split: option.splits)

theorem injected_key_overrides_caller_witness:
  "env (generateCallStdioServerCommand ''linux''
     \<lparr> command = Some ''uvx'', args = None,
       env = Some [''HOME'' \<mapsto> ''/root'', ''UV_DEFAULT_INDEX'' \<mapsto> ''https://pypi.org/simple''],
       cwd = Some ''/srv'', sseUrl = None \<rparr>)
   = Some [''HOME'' \<mapsto> ''/root'',
           ''UV_DEFAULT_INDEX'' \<mapsto> ''https://pypi.tuna.tsinghua.edu.cn/simple'']
   \<and> cwd (generateCallStdioServerCommand ''linux''
     \<lparr> command = Some ''uvx'', args = None,
       env = Some [''HOME'' \<mapsto> ''/root'', ''UV_DEFAULT_INDEX'' \<mapsto> ''https://pypi.org/simple''],
       cwd = Some ''/srv'', sseUrl = None \<rparr>) = Some ''/srv''"
  using injected_key_overrides_caller [of "\<lparr> command = Some ''uvx'', args = None,
       env = Some [''HOME'' \<mapsto> ''/root'', ''UV_DEFAULT_INDEX'' \<mapsto> ''https://pypi.org/simple''],
       cwd = Some ''/srv'', sseUrl = None \<rparr>"
      "[''HOME'' \<mapsto> ''/root'', ''UV_DEFAULT_INDEX'' \<mapsto> ''https://pypi.org/simple'']" "''linux''"]
  by simp

section \<open>Properties of the transport selection\<close>

text \<open>
  The check of the scheme is a check of the text: isSSEUrl asks whether the string
  starts with \<^verbatim>\<open>http://\<close> or \<^verbatim>\<open>https://\<close>, not what scheme the parsed URL has. The two
  strings below parse, and their scheme is http, yet createTransport rejects them.
\<close>

theorem createTransport_scheme_counterexample:
  "createTransport urlExcerpt
     \<lparr> transportType = ''sse'',
       serverConfig = \<lparr> command = None, args = None, env = None, cwd = None,
                        sseUrl = Some ''HTTP://example.com/sse'' \<rparr> \<rparr>
     = (Inl (Error ''[MCP Client] invalid SSE URL'') :: unit thrown + Transport)
   \<and> map_option protocol (urlExcerpt ''HTTP://example.com/sse'') = Some ''http:''
   \<and> createTransport urlExcerpt
     \<lparr> transportType = ''sse'',
       serverConfig = \<lparr> command = None, args = None, env = None, cwd = None,
                        sseUrl = Some ''http:example.com/sse'' \<rparr> \<rparr>
     = (Inl (Error ''[MCP Client] invalid SSE URL'') :: unit thrown + Transport)
   \<and> map_option protocol (urlExcerpt ''http:example.com/sse'') = Some ''http:''"
  by (simp add: createTransport_def isSSEUrl_def urlExcerpt_def startsWith_def)

text \<open>
  C4, amended. createTransport fails exactly on the invalid configurations, each with
  its own error. For stdio it throws the missing-command error exactly when the command is
  absent or empty, and otherwise returns the stdio handle. For sse it throws the
  invalid-URL error exactly when sseUrl is absent or empty, does not parse as a URL, or
  does not start with the literal text \<^verbatim>\<open>http://\<close> or \<^verbatim>\<open>https://\<close>, and otherwise returns
  the handle of the parsed URL. For every other transport type it throws the
  unsupported-transport error, whose message ends with the transport type.
\<close>

theorem createTransport_fails_iff:
  "(transportType cfg = ''stdio'' \<longrightarrow>
      ((createTransport parseURL cfg
          = (Inl (Error ''[MCP Client] Missing command for STDIO transport'')
             :: 'e thrown + Transport))
        = (command (serverConfig cfg) = None \<or> command (serverConfig cfg) = Some []))
      \<and> (\<forall>c. command (serverConfig cfg) = Some c \<and> c \<noteq> [] \<longrightarrow>
            createTransport parseURL cfg
              = (Inr (StdioClientTransport c (orEmptyList (args (serverConfig cfg)))
                       (env (serverConfig cfg)) (orUndefined (cwd (serverConfig cfg))))
                 :: 'e thrown + Transport)))
   \<and> (transportType cfg = ''sse'' \<longrightarrow>
      ((createTransport parseURL cfg
          = (Inl (Error ''[MCP Client] invalid SSE URL'') :: 'e thrown + Transport))
        = (sseUrl (serverConfig cfg) = None
           \<or> (\<exists>u. sseUrl (serverConfig cfg) = Some u
                 \<and> (parseURL u = None
                    \<or> \<not> (startsWith u ''http://'' \<or> startsWith u ''https://'')))))
      \<and> (\<forall>u parsed. sseUrl (serverConfig cfg) = Some u \<and> parseURL u = Some parsed
              \<and> (startsWith u ''http://'' \<or> startsWith u ''https://'') \<longrightarrow>
            createTransport parseURL cfg
              = (Inr (SSEClientTransport parsed) :: 'e thrown + Transport)))
   \<and> (transportType cfg \<noteq> ''stdio'' \<and> transportType cfg \<noteq> ''sse'' \<longrightarrow>
        createTransport parseURL cfg
          = (Inl (Error (''[MCP Client] Unsupported transport type: '' @ transportType cfg))
             :: 'e thrown + Transport))"
  by (auto simp add: createTransport_def isSSEUrl_def startsWith_def Let_def
      split: option.splits)

theorem createTransport_fails_iff_witness:
  "createTransport urlExcerpt missingCommandConfig
     = (Inl (Error ''[MCP Client] Missing command for STDIO transport'') :: unit thrown + Transport)
   \<and> createTransport urlExcerpt npxConfig
     = (Inr (StdioClientTransport ''npx'' [''-y'', ''some-pkg''] None None)
        :: unit thrown + Transport)
   \<and> createTransport urlExcerpt sseConfig
     = (Inr (SSEClientTransport \<lparr> protocol = ''https:'', href = ''https://example.com/sse'' \<rparr>)
        :: unit thrown + Transport)
   \<and> createTransport urlExcerpt
        \<lparr> transportType = ''sse'',
          serverConfig = \<lparr> command = None, args = None, env = None, cwd = None,
                           sseUrl = Some ''ftp://example.com/sse'' \<rparr> \<rparr>
     = (Inl (Error ''[MCP Client] invalid SSE URL'') :: unit thrown + Transport)
   \<and> createTransport urlExcerpt
        \<lparr> transportType = ''websocket'',
          serverConfig = \<lparr> command = None, args = None, env = None, cwd = None,
                           sseUrl = None \<rparr> \<rparr>
     = (Inl (Error ''[MCP Client] Unsupported transport type: websocket'')
        :: unit thrown + Transport)"
proof -
  let ?ftp = "\<lparr> transportType = ''sse'',
          serverConfig = \<lparr> command = None, args = None, env = None, cwd = None,
                           sseUrl = Some ''ftp://example.com/sse'' \<rparr> \<rparr>"
  let ?ws = "\<lparr> transportType = ''websocket'',
          serverConfig = \<lparr> command = None, args = None, env = None, cwd = None,
                           sseUrl = None \<rparr> \<rparr>"
  have a: "createTransport urlExcerpt missingCommandConfig
     = (Inl (Error ''[MCP Client] Missing command for STDIO transport'') :: unit thrown + Transport)"
    using createTransport_fails_iff [of missingCommandConfig urlExcerpt, where 'e = unit]
    by (simp add: missingCommandConfig_def)
  have b: "createTransport urlExcerpt npxConfig
     = (Inr (StdioClientTransport ''npx'' [''-y'', ''some-pkg''] None None)
        :: unit thrown + Transport)"
    using createTransport_fails_iff [of npxConfig urlExcerpt, where 'e = unit]
    by (simp add: npxConfig_def orEmptyList_def orUndefined_def)
  have c: "createTransport urlExcerpt sseConfig
     = (Inr (SSEClientTransport \<lparr> protocol = ''https:'', href = ''https://example.com/sse'' \<rparr>)
        :: unit thrown + Transport)"
    using createTransport_fails_iff [of sseConfig urlExcerpt, where 'e = unit]
    by (simp add: sseConfig_def urlExcerpt_def startsWith_def)
  have d: "createTransport urlExcerpt ?ftp
     = (Inl (Error ''[MCP Client] invalid SSE URL'') :: unit thrown + Transport)"
    using createTransport_fails_iff [of ?ftp urlExcerpt, where 'e = unit]
    by (simp add: urlExcerpt_def startsWith_def)
  have e: "createTransport urlExcerpt ?ws
     = (Inl (Error ''[MCP Client] Unsupported transport type: websocket'')
        :: unit thrown + Transport)"
    using createTransport_fails_iff [of ?ws urlExcerpt, where 'e = unit]
    by simp
  show ?thesis
    using a b c d e by simp
qed

section \<open>Properties of the connection loop\<close>

subsection \<open>The stored configuration\<close>

lemma storedConfig_idem: "storedConfig p (storedConfig p cfg) = storedConfig p cfg"
  by (simp add: storedConfig_def rewrite_idem)

lemma storedConfig_type: "transportType (storedConfig p cfg) = transportType cfg"
  by (simp add: storedConfig_def)

text \<open>Rewriting changes neither whether createTransport fails nor its error.\<close>

lemma createTransport_stored_Inl:
  "(createTransport parse (storedConfig p cfg) = Inl err) = (createTransport parse cfg = Inl err)"
  using rewrite_command_missing [of p "serverConfig cfg"]
  by (auto simp add: createTransport_def storedConfig_def Let_def split: option.splits)

lemma createTransport_stored_Inr:
  "createTransport parse cfg = (Inr h0 :: 'e thrown + Transport) \<Longrightarrow>
     \<exists>h. createTransport parse (storedConfig p cfg) = (Inr h :: 'e thrown + Transport)"
  by (cases "createTransport parse (storedConfig p cfg) :: 'e thrown + Transport")
     (auto simp add: createTransport_stored_Inl)

subsection \<open>Projections of the trace\<close>

lemma connects_simps [simp]:
  "connects [] = []"
  "connects (xs @ ys) = connects xs @ connects ys"
  "connects (Connect t # es) = t # connects es"
  "connects (LogRemaining n # es) = connects es"
  "connects (Sleep n # es) = connects es"
  "connects (attemptPrelude p cfg) = []"
  by (auto simp add: connects_def attemptPrelude_def)

lemma sleeps_simps [simp]:
  "sleeps [] = []"
  "sleeps (xs @ ys) = sleeps xs @ sleeps ys"
  "sleeps (Connect t # es) = sleeps es"
  "sleeps (LogRemaining n # es) = sleeps es"
  "sleeps (Sleep n # es) = n # sleeps es"
  "sleeps (attemptPrelude p cfg) = []"
  by (auto simp add: sleeps_def attemptPrelude_def)

lemma builds_simps [simp]:
  "builds [] = 0"
  "builds (xs @ ys) = builds xs + builds ys"
  "builds (Connect t # es) = builds es"
  "builds (LogRemaining n # es) = builds es"
  "builds (Sleep n # es) = builds es"
  "builds (attemptPrelude p cfg) = 1"
  by (auto simp add: builds_def attemptPrelude_def)

lemma rewriterCalls_simps [simp]:
  "rewriterCalls [] = []"
  "rewriterCalls (xs @ ys) = rewriterCalls xs @ rewriterCalls ys"
  "rewriterCalls (Connect t # es) = rewriterCalls es"
  "rewriterCalls (LogRemaining n # es) = rewriterCalls es"
  "rewriterCalls (Sleep n # es) = rewriterCalls es"
  "rewriterCalls (attemptPrelude p cfg) =
     (if transportType cfg = ''stdio'' then [serverConfig cfg] else [])"
  by (auto simp add: rewriterCalls_def attemptPrelude_def)

subsection \<open>One attempt, one turn of the loop, the whole loop\<close>

lemma attempt_eq:
  "attempt p parse connect c =
    (let cfg' = storedConfig p (clientConfig c);
         pre = attemptPrelude p (clientConfig c)
     in case createTransport parse cfg' of
          Inl err \<Rightarrow> (Inl err, c\<lparr> clientConfig := cfg', trace := trace c @ pre \<rparr>)
        | Inr t \<Rightarrow>
            (case connect (length (connects (trace c))) t of
               Some e \<Rightarrow> Inl (Rejected e) | None \<Rightarrow> Inr (),
             c\<lparr> clientConfig := cfg', transport := Some t, trace := trace c @ pre @ [Connect t] \<rparr>))"
  by (simp add: attempt_def storedConfig_def attemptPrelude_def emit_def connects_def Let_def
      split: sum.splits option.splits)

lemma connectLoop_step:
  "retries < 3 \<Longrightarrow>
   connectLoop p parse connect retries c =
     (case attempt p parse connect c of
        (Inr u, c') \<Rightarrow> (Inr (), c')
      | (Inl err, c') \<Rightarrow>
          if retries = 2 then (Inl err, emit [LogRemaining 0] c')
          else connectLoop p parse connect (Suc retries)
                 (emit [LogRemaining (2 - retries), Sleep 1000] c'))"
  by (subst connectLoop.simps)
     (auto simp add: maxRetries_def retryDelay_def emit_def Let_def split: sum.splits prod.splits)

text \<open>A configuration that createTransport rejects: three attempts, all rejected.\<close>

lemma connectToServer_config_error:
  assumes "createTransport parse (clientConfig c) = Inl err"
  shows "connectToServer p parse connect c =
    (Inl err,
     c\<lparr> clientConfig := storedConfig p (clientConfig c),
        trace := trace c @ attemptPrelude p (clientConfig c) @ [LogRemaining 2, Sleep 1000]
                   @ attemptPrelude p (storedConfig p (clientConfig c))
                   @ [LogRemaining 1, Sleep 1000]
                   @ attemptPrelude p (storedConfig p (clientConfig c)) @ [LogRemaining 0] \<rparr>)"
proof -
  have e: "createTransport parse (storedConfig p (clientConfig c)) = Inl err"
    using assms by (simp add: createTransport_stored_Inl)
  show ?thesis
    by (simp add: connectToServer_def connectLoop_step attempt_eq e storedConfig_idem emit_def
        Let_def)
qed

text \<open>
  A configuration that createTransport accepts: the loop runs until the session opens or
  the third attempt is rejected.
\<close>

lemma connectToServer_valid:
  assumes h: "createTransport parse (storedConfig p (clientConfig c))
                = (Inr h :: 'e thrown + Transport)"
  shows "connectToServer p parse (connect :: nat \<Rightarrow> Transport \<Rightarrow> 'e option) c =
    (let n = length (connects (trace c));
         cfg = clientConfig c; cfg' = storedConfig p cfg;
         t1 = trace c @ attemptPrelude p cfg @ [Connect h];
         t2 = t1 @ [LogRemaining 2, Sleep 1000] @ attemptPrelude p cfg' @ [Connect h];
         t3 = t2 @ [LogRemaining 1, Sleep 1000] @ attemptPrelude p cfg' @ [Connect h]
     in case connect n h of
          None \<Rightarrow> (Inr (), c\<lparr> clientConfig := cfg', transport := Some h, trace := t1 \<rparr>)
        | Some e1 \<Rightarrow>
           (case connect (n + 1) h of
              None \<Rightarrow> (Inr (), c\<lparr> clientConfig := cfg', transport := Some h, trace := t2 \<rparr>)
            | Some e2 \<Rightarrow>
               (case connect (n + 2) h of
                  None \<Rightarrow> (Inr (), c\<lparr> clientConfig := cfg', transport := Some h, trace := t3 \<rparr>)
                | Some e3 \<Rightarrow>
                    (Inl (Rejected e3),
                     c\<lparr> clientConfig := cfg', transport := Some h,
                        trace := t3 @ [LogRemaining 0] \<rparr>))))"
  by (simp add: connectToServer_def connectLoop_step attempt_eq h storedConfig_idem emit_def Let_def
      split: option.splits)

section \<open>Properties of connectToServer\<close>

text \<open>
  A configuration error is not surfaced at once. createTransport is called inside the
  \<^verbatim>\<open>try\<close> block, and the \<^verbatim>\<open>catch\<close> block does not tell its error from a rejected
  session: with the command missing, the transport is built three times and the loop
  sleeps twice before the error reaches the caller.
\<close>

theorem config_error_not_immediate_counterexample:
  "fst (connectToServer ''linux'' urlExcerpt (replayConnect []) (newMCPClient missingCommandConfig :: unit MCPClient))
     = (Inl (Error ''[MCP Client] Missing command for STDIO transport'') :: unit thrown + unit)
   \<and> builds (trace (snd (connectToServer ''linux'' urlExcerpt (replayConnect ([] :: unit option list))
        (newMCPClient missingCommandConfig :: unit MCPClient)))) = 3
   \<and> sleeps (trace (snd (connectToServer ''linux'' urlExcerpt (replayConnect ([] :: unit option list))
        (newMCPClient missingCommandConfig :: unit MCPClient)))) = [1000, 1000]"
proof -
  have e: "createTransport urlExcerpt (clientConfig (newMCPClient missingCommandConfig :: unit MCPClient))
      = (Inl (Error ''[MCP Client] Missing command for STDIO transport'') :: unit thrown + Transport)"
    by (simp add: createTransport_def newMCPClient_def missingCommandConfig_def)
  show ?thesis
    by (simp add: connectToServer_config_error [OF e]) (simp add: newMCPClient_def)
qed

text \<open>
  C1, amended. If createTransport fails on the client's configuration (missing command,
  invalid SSE URL or unsupported transport type), connectToServer handles the error in
  the same retry loop as a rejected session: it calls createTransport three times, sleeps
  1000 ms twice, never calls the SDK's connect, and then throws that error.
\<close>

theorem connectToServer_retries_config_error:
  "createTransport parseURL (clientConfig c) = Inl err \<Longrightarrow>
   fst (connectToServer platform parseURL connect c) = Inl err
   \<and> builds (trace (snd (connectToServer platform parseURL connect c))) = builds (trace c) + 3
   \<and> sleeps (trace (snd (connectToServer platform parseURL connect c)))
       = sleeps (trace c) @ [1000, 1000]
   \<and> connects (trace (snd (connectToServer platform parseURL connect c))) = connects (trace c)"
  by (simp add: connectToServer_config_error)

theorem connectToServer_retries_config_error_witness:
  "createTransport urlExcerpt (clientConfig (newMCPClient missingCommandConfig :: unit MCPClient))
      = (Inl (Error ''[MCP Client] Missing command for STDIO transport'') :: unit thrown + Transport)
   \<and> fst (connectToServer ''linux'' urlExcerpt (replayConnect []) (newMCPClient missingCommandConfig :: unit MCPClient))
     = (Inl (Error ''[MCP Client] Missing command for STDIO transport'') :: unit thrown + unit)
   \<and> builds (trace (snd (connectToServer ''linux'' urlExcerpt (replayConnect ([] :: unit option list))
        (newMCPClient missingCommandConfig :: unit MCPClient)))) = 3
   \<and> sleeps (trace (snd (connectToServer ''linux'' urlExcerpt (replayConnect ([] :: unit option list))
        (newMCPClient missingCommandConfig :: unit MCPClient)))) = [1000, 1000]
   \<and> connects (trace (snd (connectToServer ''linux'' urlExcerpt (replayConnect ([] :: unit option list))
        (newMCPClient missingCommandConfig :: unit MCPClient)))) = []"
proof -
  have e: "createTransport urlExcerpt (clientConfig (newMCPClient missingCommandConfig :: unit MCPClient))
      = (Inl (Error ''[MCP Client] Missing command for STDIO transport'') :: unit thrown + Transport)"
    by (simp add: createTransport_def newMCPClient_def missingCommandConfig_def)
  have t: "trace (newMCPClient missingCommandConfig :: unit MCPClient) = []"
    by (simp add: newMCPClient_def)
  show ?thesis
    using e connectToServer_retries_config_error [OF e, of "''linux''" "replayConnect []"] by (simp add: t)
qed

text \<open>
  The rewriter runs in every turn of the loop, on the configuration stored by the turn
  before. With one rejected session it is called twice in one connectToServer: first on
  the caller's npx configuration, then on the bash configuration it has itself produced.
\<close>

theorem rewriter_reapplied_counterexample:
  "rewriterCalls (trace (snd (connectToServer ''linux'' urlExcerpt (replayConnect [Some (), None])
       (newMCPClient npxConfig :: unit MCPClient))))
   = [\<lparr> command = Some ''npx'', args = Some [''-y'', ''some-pkg''], env = None, cwd = None,
        sseUrl = None \<rparr>,
      \<lparr> command = Some ''bash'',
        args = Some [''-c'', ''npx --registry=https://registry.npmmirror.com -y some-pkg''],
        env = Some [''NPM_CONFIG_REGISTRY'' \<mapsto> ''https://registry.npmmirror.com''],
        cwd = None, sseUrl = None \<rparr>]"
proof -
  let ?c = "newMCPClient npxConfig :: unit MCPClient"
  let ?bash = "\<lparr> command = Some ''bash'',
        args = Some [''-c'', ''npx --registry=https://registry.npmmirror.com -y some-pkg''],
        env = Some [''NPM_CONFIG_REGISTRY'' \<mapsto> ''https://registry.npmmirror.com''],
        cwd = None, sseUrl = None \<rparr>"
  let ?H = "StdioClientTransport ''bash''
           [''-c'', ''npx --registry=https://registry.npmmirror.com -y some-pkg'']
           (Some [''NPM_CONFIG_REGISTRY'' \<mapsto> ''https://registry.npmmirror.com'']) None"
  have cfg: "clientConfig ?c = npxConfig" and t: "trace ?c = []"
    by (simp_all add: newMCPClient_def)
  have tt: "transportType npxConfig = ''stdio''"
    and sc: "serverConfig npxConfig
      = \<lparr> command = Some ''npx'', args = Some [''-y'', ''some-pkg''], env = None, cwd = None,
          sseUrl = None \<rparr>"
    by (simp_all add: npxConfig_def)
  have r: "generateCallStdioServerCommand ''linux'' (serverConfig npxConfig) = ?bash"
    by (simp add: sc generateCallStdioServerCommand_def generateNpxCommand_def
        orEmptyString_def orEmptyList_def orEmptyObject_def orUndefined_def Let_def)
  have st: "storedConfig ''linux'' npxConfig
      = \<lparr> transportType = ''stdio'', serverConfig = ?bash \<rparr>"
    by (simp add: storedConfig_def tt r)
  have h: "createTransport urlExcerpt (storedConfig ''linux'' (clientConfig ?c))
      = (Inr ?H :: unit thrown + Transport)"
    by (simp add: cfg st createTransport_def orEmptyList_def orUndefined_def)
  have o: "replayConnect [Some (), None] 0 ?H = Some ()"
       "replayConnect [Some (), None] (Suc 0) ?H = None"
    by (simp_all add: replayConnect_def replay_def)
  show ?thesis
    by (simp add: connectToServer_valid [OF h] Let_def t cfg o st tt sc)
qed

text \<open>
  C2, amended. For every stdio configuration, connectToServer calls the rewriter once in
  every attempt (one to three times), the first time on the original server
  configuration and each later time on the stored, already rewritten one. The rewriter is
  idempotent, so after any number of attempts the stored configuration is the rewrite of
  the original server configuration.
\<close>

theorem rewriter_invoked_per_attempt:
  "transportType (clientConfig c) = ''stdio'' \<Longrightarrow>
     clientConfig (snd (connectToServer platform parseURL connect c))
       = \<lparr> transportType = ''stdio'',
           serverConfig = generateCallStdioServerCommand platform (serverConfig (clientConfig c)) \<rparr>
   \<and> generateCallStdioServerCommand platform
         (generateCallStdioServerCommand platform (serverConfig (clientConfig c)))
       = generateCallStdioServerCommand platform (serverConfig (clientConfig c))
   \<and> builds (trace (snd (connectToServer platform parseURL connect c))) - builds (trace c)
       \<in> {1, 2, 3}
   \<and> rewriterCalls (trace (snd (connectToServer platform parseURL connect c)))
       = rewriterCalls (trace c) @ serverConfig (clientConfig c)
           # replicate (builds (trace (snd (connectToServer platform parseURL connect c)))
                          - builds (trace c) - 1)
               (generateCallStdioServerCommand platform (serverConfig (clientConfig c)))"
proof -
  assume stdio: "transportType (clientConfig c) = ''stdio''"
  let ?cfg' = "storedConfig platform (clientConfig c)"
  have s: "?cfg' = \<lparr> transportType = ''stdio'',
           serverConfig = generateCallStdioServerCommand platform (serverConfig (clientConfig c)) \<rparr>"
    using stdio by (simp add: storedConfig_def)
  have t: "transportType ?cfg' = ''stdio''"
    using stdio by (simp add: storedConfig_type)
  have sc: "serverConfig ?cfg'
      = generateCallStdioServerCommand platform (serverConfig (clientConfig c))"
    by (simp add: s)
  show ?thesis
  proof (cases "createTransport parseURL ?cfg' :: 'b thrown + Transport")
    case (Inl err)
    then have "createTransport parseURL (clientConfig c) = Inl err"
      by (simp add: createTransport_stored_Inl)
    from connectToServer_config_error [OF this] show ?thesis
      using stdio t sc by (simp add: rewrite_idem s [symmetric] numeral_3_eq_3)
  next
    case (Inr h)
    from connectToServer_valid [OF this] show ?thesis
      using stdio t sc
      by (simp add: rewrite_idem s [symmetric] Let_def numeral_3_eq_3 numeral_2_eq_2
          split: option.splits)
  qed
qed

theorem rewriter_invoked_per_attempt_witness:
  "transportType (clientConfig (newMCPClient npxConfig :: unit MCPClient)) = ''stdio''
   \<and> clientConfig (snd (connectToServer ''linux'' urlExcerpt (replayConnect [Some (), None])
         (newMCPClient npxConfig :: unit MCPClient)))
     = \<lparr> transportType = ''stdio'',
         serverConfig =
           \<lparr> command = Some ''bash'',
             args = Some [''-c'', ''npx --registry=https://registry.npmmirror.com -y some-pkg''],
             env = Some [''NPM_CONFIG_REGISTRY'' \<mapsto> ''https://registry.npmmirror.com''],
             cwd = None, sseUrl = None \<rparr> \<rparr>"
proof -
  have r: "generateCallStdioServerCommand ''linux'' (serverConfig npxConfig)
      = \<lparr> command = Some ''bash'',
        args = Some [''-c'', ''npx --registry=https://registry.npmmirror.com -y some-pkg''],
        env = Some [''NPM_CONFIG_REGISTRY'' \<mapsto> ''https://registry.npmmirror.com''],
        cwd = None, sseUrl = None \<rparr>"
    by (simp add: npxConfig_def generateCallStdioServerCommand_def generateNpxCommand_def
        orEmptyString_def orEmptyList_def orEmptyObject_def orUndefined_def Let_def)
  have s: "transportType (clientConfig (newMCPClient npxConfig :: unit MCPClient)) = ''stdio''"
    by (simp add: newMCPClient_def npxConfig_def)
  have c: "serverConfig (clientConfig (newMCPClient npxConfig :: unit MCPClient))
      = serverConfig npxConfig"
    by (simp add: newMCPClient_def)
  show ?thesis
    using s rewriter_invoked_per_attempt [OF s, of "''linux''" urlExcerpt "replayConnect [Some (), None]"]
    by (simp add: c r)
qed

text \<open>
  C3. Let createTransport accept the client's configuration, and let \<open>h\<close> be the handle
  it builds from the stored configuration. If the session rejects the first two calls of
  connect and resolves the third, connectToServer returns normally with \<open>h\<close> stored,
  after three attempts (three builds, three calls of connect) and two sleeps of 1000 ms.
  If the session rejects all three calls, connectToServer makes the same three attempts
  and two sleeps and throws what the third call rejected with.
\<close>

theorem connectToServer_retry_budget:
  "createTransport parseURL (clientConfig c) = (Inr h0 :: 'e thrown + Transport) \<Longrightarrow>
   \<exists>h. createTransport parseURL (storedConfig platform (clientConfig c))
         = (Inr h :: 'e thrown + Transport)
     \<and> (connect (length (connects (trace c))) h = Some e1
        \<and> connect (length (connects (trace c)) + 1) h = Some e2
        \<and> connect (length (connects (trace c)) + 2) h = None \<longrightarrow>
          fst (connectToServer platform parseURL connect c) = Inr ()
        \<and> transport (snd (connectToServer platform parseURL connect c)) = Some h
        \<and> connects (trace (snd (connectToServer platform parseURL connect c)))
            = connects (trace c) @ [h, h, h]
        \<and> builds (trace (snd (connectToServer platform parseURL connect c)))
            = builds (trace c) + 3
        \<and> sleeps (trace (snd (connectToServer platform parseURL connect c)))
            = sleeps (trace c) @ [1000, 1000])
     \<and> (connect (length (connects (trace c))) h = Some e1
        \<and> connect (length (connects (trace c)) + 1) h = Some e2
        \<and> connect (length (connects (trace c)) + 2) h = Some (e3 :: 'e) \<longrightarrow>
          fst (connectToServer platform parseURL connect c) = Inl (Rejected e3)
        \<and> connects (trace (snd (connectToServer platform parseURL connect c)))
            = connects (trace c) @ [h, h, h]
        \<and> builds (trace (snd (connectToServer platform parseURL connect c)))
            = builds (trace c) + 3
        \<and> sleeps (trace (snd (connectToServer platform parseURL connect c)))
            = sleeps (trace c) @ [1000, 1000])"
proof -
  assume "createTransport parseURL (clientConfig c) = (Inr h0 :: 'e thrown + Transport)"
  then obtain h where
    h: "createTransport parseURL (storedConfig platform (clientConfig c))
          = (Inr h :: 'e thrown + Transport)"
    using createTransport_stored_Inr by blast
  show ?thesis
    by (rule exI [of _ h]) (simp add: h connectToServer_valid [OF h] Let_def)
qed

theorem connectToServer_retry_budget_witness:
  "createTransport urlExcerpt (clientConfig (newMCPClient sseConfig :: unit MCPClient))
     = (Inr (SSEClientTransport \<lparr> protocol = ''https:'', href = ''https://example.com/sse'' \<rparr>)
         :: nat thrown + Transport)
   \<and> fst (connectToServer ''linux'' urlExcerpt (replayConnect [Some (7 :: nat), Some 8, None])
         (newMCPClient sseConfig :: unit MCPClient)) = Inr ()
   \<and> sleeps (trace (snd (connectToServer ''linux'' urlExcerpt
         (replayConnect [Some (7 :: nat), Some 8, None])
         (newMCPClient sseConfig :: unit MCPClient)))) = [1000, 1000]
   \<and> length (connects (trace (snd (connectToServer ''linux'' urlExcerpt
         (replayConnect [Some (7 :: nat), Some 8, None])
         (newMCPClient sseConfig :: unit MCPClient))))) = 3
   \<and> fst (connectToServer ''linux'' urlExcerpt (replayConnect [Some (7 :: nat), Some 8, Some 9])
         (newMCPClient sseConfig :: unit MCPClient)) = Inl (Rejected 9)
   \<and> length (connects (trace (snd (connectToServer ''linux'' urlExcerpt
         (replayConnect [Some (7 :: nat), Some 8, Some 9])
         (newMCPClient sseConfig :: unit MCPClient))))) = 3
   \<and> sleeps (trace (snd (connectToServer ''linux'' urlExcerpt
         (replayConnect [Some (7 :: nat), Some 8, Some 9])
         (newMCPClient sseConfig :: unit MCPClient)))) = [1000, 1000]"
proof -
  let ?c = "newMCPClient sseConfig :: unit MCPClient"
  let ?H = "SSEClientTransport \<lparr> protocol = ''https:'', href = ''https://example.com/sse'' \<rparr>"
  have v: "createTransport urlExcerpt (clientConfig ?c) = (Inr ?H :: nat thrown + Transport)"
    by (simp add: createTransport_def newMCPClient_def sseConfig_def isSSEUrl_def urlExcerpt_def
        startsWith_def)
  have st: "storedConfig ''linux'' (clientConfig ?c) = clientConfig ?c"
    by (simp add: storedConfig_def newMCPClient_def sseConfig_def)
  have t: "trace ?c = []"
    by (simp add: newMCPClient_def)
  have ok: "replayConnect [Some (7 :: nat), Some 8, None] 0 ?H = Some 7"
       "replayConnect [Some (7 :: nat), Some 8, None] (Suc 0) ?H = Some 8"
       "replayConnect [Some (7 :: nat), Some 8, None] (Suc (Suc 0)) ?H = None"
    by (simp_all add: replayConnect_def replay_def)
  have ko: "replayConnect [Some (7 :: nat), Some 8, Some 9] 0 ?H = Some 7"
       "replayConnect [Some (7 :: nat), Some 8, Some 9] (Suc 0) ?H = Some 8"
       "replayConnect [Some (7 :: nat), Some 8, Some 9] (Suc (Suc 0)) ?H = Some 9"
    by (simp_all add: replayConnect_def replay_def)
  from connectToServer_retry_budget [OF v, of "''linux''" "replayConnect [Some (7 :: nat), Some 8, None]" 7 8 9]
  have a: "fst (connectToServer ''linux'' urlExcerpt (replayConnect [Some (7 :: nat), Some 8, None]) ?c) = Inr ()
    \<and> sleeps (trace (snd (connectToServer ''linux'' urlExcerpt
         (replayConnect [Some (7 :: nat), Some 8, None]) ?c))) = [1000, 1000]
    \<and> length (connects (trace (snd (connectToServer ''linux'' urlExcerpt
         (replayConnect [Some (7 :: nat), Some 8, None]) ?c)))) = 3"
    by (auto simp add: st v t ok)
  from connectToServer_retry_budget [OF v, of "''linux''" "replayConnect [Some (7 :: nat), Some 8, Some 9]" 7 8 9]
  have b: "fst (connectToServer ''linux'' urlExcerpt (replayConnect [Some (7 :: nat), Some 8, Some 9]) ?c)
       = Inl (Rejected 9)
    \<and> length (connects (trace (snd (connectToServer ''linux'' urlExcerpt
         (replayConnect [Some (7 :: nat), Some 8, Some 9]) ?c)))) = 3
    \<and> sleeps (trace (snd (connectToServer ''linux'' urlExcerpt
         (replayConnect [Some (7 :: nat), Some 8, Some 9]) ?c))) = [1000, 1000]"
    by (auto simp add: st v t ko)
  show ?thesis
    using v a b by simp
qed

section \<open>Properties of the operations on an open session\<close>

lemma listToolsCalls_simps [simp]:
  "listToolsCalls (xs @ ys) = listToolsCalls xs + listToolsCalls ys"
  "listToolsCalls [] = 0"
  "listToolsCalls (ListTools # es) = Suc (listToolsCalls es)"
  "listToolsCalls (Sleep n # es) = listToolsCalls es"
  by (simp_all add: listToolsCalls_def)

lemma callToolCalls_simps [simp]:
  "callToolCalls (xs @ ys) = callToolCalls xs @ callToolCalls ys"
  "callToolCalls [] = []"
  "callToolCalls (CallTool n a t # es) = (n, a, t) # callToolCalls es"
  by (simp_all add: callToolCalls_def)

lemma listTools_eq:
  "listTools sdk c =
    (let n = listToolsCalls (trace c)
     in case sdk n of
          Inr r \<Rightarrow> (Inr (toolsOf r), emit [ListTools] c)
        | Inl e1 \<Rightarrow>
           (case sdk (n + 1) of
              Inr r \<Rightarrow> (Inr (toolsOf r), emit [ListTools, Sleep 1000, ListTools] c)
            | Inl e2 \<Rightarrow>
               (case sdk (n + 2) of
                  Inr r \<Rightarrow>
                    (Inr (toolsOf r),
                     emit [ListTools, Sleep 1000, ListTools, Sleep 1000, ListTools] c)
                | Inl e3 \<Rightarrow>
                    (Inl e3,
                     emit [ListTools, Sleep 1000, ListTools, Sleep 1000, ListTools] c))))"
  by (simp add: listTools_def toolsOf_def emit_def Let_def numeral_3_eq_3 split: sum.splits)

text \<open>
  C5. listTools calls the SDK at most three times and sleeps 1000 ms between two calls.
  The first call that resolves ends the loop, and listTools returns the tools of its
  result, or the empty list when the result has none. If all three calls reject,
  listTools throws what the third call rejected with.
\<close>

theorem listTools_three_attempts:
  "(sdk (listToolsCalls (trace c)) = Inr r \<longrightarrow>
      listTools sdk c = (Inr (case tools r of None \<Rightarrow> [] | Some ts \<Rightarrow> ts), emit [ListTools] c))
   \<and> (sdk (listToolsCalls (trace c)) = Inl e1
      \<and> sdk (listToolsCalls (trace c) + 1) = Inr r \<longrightarrow>
      listTools sdk c
        = (Inr (case tools r of None \<Rightarrow> [] | Some ts \<Rightarrow> ts),
           emit [ListTools, Sleep 1000, ListTools] c))
   \<and> (sdk (listToolsCalls (trace c)) = Inl e1
      \<and> sdk (listToolsCalls (trace c) + 1) = Inl e2
      \<and> sdk (listToolsCalls (trace c) + 2) = Inr r \<longrightarrow>
      listTools sdk c
        = (Inr (case tools r of None \<Rightarrow> [] | Some ts \<Rightarrow> ts),
           emit [ListTools, Sleep 1000, ListTools, Sleep 1000, ListTools] c))
   \<and> (sdk (listToolsCalls (trace c)) = Inl e1
      \<and> sdk (listToolsCalls (trace c) + 1) = Inl e2
      \<and> sdk (listToolsCalls (trace c) + 2) = Inl e3 \<longrightarrow>
      listTools sdk c
        = (Inl e3, emit [ListTools, Sleep 1000, ListTools, Sleep 1000, ListTools] c))
   \<and> listToolsCalls (trace (snd (listTools sdk c))) \<le> listToolsCalls (trace c) + 3"
  by (simp add: listTools_eq toolsOf_def emit_def Let_def split: sum.splits)

theorem listTools_three_attempts_witness:
  "fst (listTools (replay (Inl 0) [Inl (7 :: nat), Inl 8, Inr \<lparr> tools = Some [''A'', ''B''] \<rparr>])
         (newMCPClient sseConfig :: unit MCPClient)) = Inr [''A'', ''B'']
   \<and> trace (snd (listTools (replay (Inl 0) [Inl (7 :: nat), Inl 8, Inr \<lparr> tools = Some [''A'', ''B''] \<rparr>])
         (newMCPClient sseConfig :: unit MCPClient)))
       = [ListTools, Sleep 1000, ListTools, Sleep 1000, ListTools]
   \<and> fst (listTools (replay (Inl 0) [Inr \<lparr> tools = (None :: string list option) \<rparr>])
         (newMCPClient sseConfig :: unit MCPClient)) = (Inr [] :: nat + string list)
   \<and> fst (listTools (replay (Inl 0) [Inl (7 :: nat), Inl 8, Inl 9, Inr \<lparr> tools = Some [''A'', ''B''] \<rparr>])
         (newMCPClient sseConfig :: unit MCPClient)) = Inl 9
   \<and> trace (snd (listTools (replay (Inl 0) [Inl (7 :: nat), Inl 8, Inl 9, Inr \<lparr> tools = Some [''A'', ''B''] \<rparr>])
         (newMCPClient sseConfig :: unit MCPClient)))
       = [ListTools, Sleep 1000, ListTools, Sleep 1000, ListTools]"
proof -
  let ?c = "newMCPClient sseConfig :: unit MCPClient"
  let ?r = "\<lparr> tools = Some [''A'', ''B''] \<rparr>"
  have t: "trace ?c = []"
    by (simp add: newMCPClient_def)
  have n: "listToolsCalls [] = 0"
    by (simp add: listToolsCalls_def)
  have a: "listTools (replay (Inl 0) [Inl (7 :: nat), Inl 8, Inr ?r]) ?c
      = (Inr [''A'', ''B''], emit [ListTools, Sleep 1000, ListTools, Sleep 1000, ListTools] ?c)"
    using listTools_three_attempts [of "replay (Inl 0) [Inl (7 :: nat), Inl 8, Inr ?r]" ?c ?r 7 8 9]
    by (simp add: t n replay_def)
  have b: "listTools (replay (Inl (0 :: nat)) [Inr \<lparr> tools = (None :: string list option) \<rparr>]) ?c
      = (Inr [], emit [ListTools] ?c)"
    using listTools_three_attempts [of "replay (Inl (0 :: nat)) [Inr \<lparr> tools = (None :: string list option) \<rparr>]" ?c
        "\<lparr> tools = None \<rparr>" 7 8 9]
    by (simp add: t n replay_def)
  have c: "listTools (replay (Inl 0) [Inl (7 :: nat), Inl 8, Inl 9, Inr ?r]) ?c
      = (Inl 9, emit [ListTools, Sleep 1000, ListTools, Sleep 1000, ListTools] ?c)"
    using listTools_three_attempts [of "replay (Inl 0) [Inl (7 :: nat), Inl 8, Inl 9, Inr ?r]" ?c ?r 7 8 9]
    by (simp add: t n replay_def)
  show ?thesis
    by (simp add: a b c emit_def t)
qed

text \<open>
  C6. callTool calls the SDK exactly once, with the timeout 300000 ms (five minutes), and
  does nothing else. What the call rejects with, a timeout included, is thrown unchanged;
  what it resolves with is returned.
\<close>

theorem callTool_single_attempt:
  "callToolCalls (trace (snd (callTool sdk toolName toolArgs c)))
     = callToolCalls (trace c) @ [(toolName, toolArgs, 300000)]
   \<and> trace (snd (callTool sdk toolName toolArgs c))
     = trace c @ [CallTool toolName toolArgs 300000]
   \<and> (sdk (length (callToolCalls (trace c))) toolName toolArgs 300000 = Inl e \<longrightarrow>
        fst (callTool sdk toolName toolArgs c) = Inl e)
   \<and> (sdk (length (callToolCalls (trace c))) toolName toolArgs 300000 = Inr r \<longrightarrow>
        fst (callTool sdk toolName toolArgs c) = Inr r)"
  by (simp add: callTool_def emit_def Let_def split: sum.splits)

theorem callTool_single_attempt_witness:
  "fst (callTool (replayCallTool (Inr ''ok'') [Inl (7 :: nat)]) ''x'' () (newMCPClient sseConfig))
     = Inl 7
   \<and> trace (snd (callTool (replayCallTool (Inr ''ok'') [Inl (7 :: nat)]) ''x'' ()
        (newMCPClient sseConfig))) = [CallTool ''x'' () 300000]
   \<and> fst (callTool (replayCallTool (Inr ''ok'') ([] :: (nat + string) list)) ''x'' ()
        (newMCPClient sseConfig)) = Inr ''ok''"
proof -
  let ?c = "newMCPClient sseConfig :: unit MCPClient"
  have t: "trace ?c = []"
    by (simp add: newMCPClient_def)
  have n: "callToolCalls ([] :: unit event list) = []"
    by (simp add: callToolCalls_def)
  show ?thesis
    using callTool_single_attempt [of "replayCallTool (Inr ''ok'') [Inl (7 :: nat)]" "''x''" "()" ?c 7 "''ok''"]
      callTool_single_attempt [of "replayCallTool (Inr ''ok'') ([] :: (nat + string) list)" "''x''" "()" ?c 7 "''ok''"]
    by (simp add: t n replayCallTool_def replay_def)
qed

end
